theory Spec2Isabelle
  imports Main "HOL-Library.Word"
begin

section \<open>Data model of \<open>src/smalloc.cc\<close>\<close>

text \<open>
  The embedding follows \<open>node::smalloc\<close> function by function. \<open>size_t\<close> and
  pointers are words of one width \<open>'w\<close> (32 on ia32 and arm, 64 on x64); the values
  that \<open>Uint32Value()\<close> yields are \<open>32 word\<close>. The null pointer is \<open>0\<close>. The
  records below are written over the type \<open>'a\<close> of addresses and sizes, and the
  functions use them at \<open>'a = 'w word\<close>.
\<close>

type_synonym uint32 = "32 word"

text \<open>
  \<open>v8::ExternalArrayType\<close>. The enumeration is declared in \<open>v8.h\<close>; the nine kinds
  are the ones \<open>ExternalArraySize\<close> switches over, and \<open>kExternalUnrecognized\<close> stands
  for every other value that a \<open>static_cast<ExternalArrayType>\<close> can produce.
\<close>

datatype ExternalArrayType =
    kExternalByteArray
  | kExternalUnsignedByteArray
  | kExternalShortArray
  | kExternalUnsignedShortArray
  | kExternalIntArray
  | kExternalUnsignedIntArray
  | kExternalFloatArray
  | kExternalDoubleArray
  | kExternalPixelArray
  | kExternalUnrecognized

text \<open>How a call into the module ends.\<close>

datatype outcome =
    Returned
  | ThrowTypeError string
  | ThrowError string
  | ThrowRangeError string
  | AssertionFailed string
  | FatalError string string
  | BadAlloc
  | DanglingCallbackInfo
  | DivisionByZero
  | EmptyHandle

text \<open>
  \<open>ThrowTypeError\<close>, \<open>ThrowError\<close> and \<open>ThrowRangeError\<close> are the exceptions that
  \<open>env->Throw...\<close> schedules for the JavaScript caller. \<open>AssertionFailed\<close> is a failed
  \<open>assert\<close> (the process aborts), \<open>FatalError\<close> the call of \<open>FatalError(location,
  message)\<close>, \<open>BadAlloc\<close> a failing \<open>new\<close> expression (\<open>std::bad_alloc\<close>), and
  \<open>DanglingCallbackInfo\<close> a dereference of a \<open>CallbackInfo\<close> that was deleted, and
  \<open>DivisionByZero\<close> the division \<open>length / ExternalArraySize(type)\<close> by a zero size,
  and \<open>EmptyHandle\<close> a member call through an empty \<open>Local\<close> handle, which holds a
  null pointer.
\<close>

fun is_exception :: "outcome \<Rightarrow> bool" where
  "is_exception (ThrowTypeError m) = True"
| "is_exception (ThrowError m) = True"
| "is_exception (ThrowRangeError m) = True"
| "is_exception other = False"

text \<open>The external array that \<open>SetIndexedPropertiesToExternalArrayData\<close> stores in an object.\<close>

record 'a external_array =
  ea_data :: 'a
  ea_type :: ExternalArrayType
  ea_length :: 'a

text \<open>
  A managed object, as far as this module looks at it: its external array, if it has
  one, and the hidden value stored under \<open>smalloc_p_string\<close> (the address held by the
  \<open>v8::External\<close>), if it has one.
\<close>

record 'a js_object =
  external :: "'a external_array option"
  hidden_smalloc_p :: "'a option"

text \<open>\<open>struct CallbackInfo\<close>; \<open>p_obj\<close> is the object its persistent handle refers to.\<close>

record 'a CallbackInfo =
  hint :: 'a
  cb :: 'a
  p_obj :: nat

text \<open>
  A weak registration made by \<open>SetWeak(parameter, callback)\<close> on a persistent handle
  to object \<open>weak_target\<close>: \<open>WeakData data\<close> is \<open>SetWeak(data, TargetCallback)\<close>,
  \<open>WeakInfo cb_info\<close> is \<open>SetWeak(cb_info, TargetFreeCallback)\<close>.
\<close>

datatype 'a weak_parameter = WeakData 'a | WeakInfo 'a

text \<open>What the module does to the outside, in the order it does it.\<close>

datatype 'a event =
    Adjusted int
  | Freed 'a
  | Invoked 'a 'a 'a
  | Deleted 'a

text \<open>
  \<open>Adjusted d\<close> is a call \<open>AdjustAmountOfExternalAllocatedMemory(d)\<close>, \<open>Freed p\<close> a call
  \<open>free(p)\<close>, \<open>Invoked f data hint\<close> a call of the custom callback \<open>f(data, hint)\<close>, and
  \<open>Deleted p\<close> is \<open>delete\<close> of the \<open>CallbackInfo\<close> at \<open>p\<close>.
\<close>

record 'a state =
  objects :: "nat \<Rightarrow> 'a js_object"
  cb_infos :: "'a \<Rightarrow> 'a CallbackInfo option"
  weak :: "(nat \<times> 'a weak_parameter) list"
  external_memory :: int
  using_smalloc_alloc_cb :: bool
  memory :: "'a \<Rightarrow> 8 word"
  trace :: "'a event list"

text \<open>A value passed from JavaScript where the code asks \<open>IsObject()\<close>.\<close>

datatype js_value = JSObject nat | JSPrimitive


section \<open>Element sizes\<close>

text \<open>\<open>ExternalArraySize\<close>: the size of an external array type, or 0 if unrecognized.\<close>

fun ExternalArraySize :: "ExternalArrayType \<Rightarrow> 'w::len word" where
  "ExternalArraySize kExternalUnsignedByteArray = 1"
| "ExternalArraySize kExternalByteArray = 1"
| "ExternalArraySize kExternalShortArray = 2"
| "ExternalArraySize kExternalUnsignedShortArray = 2"
| "ExternalArraySize kExternalIntArray = 4"
| "ExternalArraySize kExternalUnsignedIntArray = 4"
| "ExternalArraySize kExternalFloatArray = 4"
| "ExternalArraySize kExternalDoubleArray = 8"
| "ExternalArraySize kExternalPixelArray = 1"
| "ExternalArraySize kExternalUnrecognized = 0"

section \<open>The object interface the module calls\<close>

text \<open>
  The five \<open>v8::Object\<close> methods the module uses. They belong to V8, not to this
  file; they are modelled by what the module relies on: the setter stores the triple,
  \<open>Has...\<close> tells whether a triple was stored, and the getters read it back. On an
  object without external array data V8's getters return a null pointer, the type
  \<open>-1\<close> and the length \<open>-1\<close>; of these only the type matters below, where
  \<open>dispose\<close> of an object without external array data fails \<open>assert(array_size > 0)\<close>.
\<close>

definition HasIndexedPropertiesInExternalArrayData :: "'a js_object \<Rightarrow> bool" where
  "HasIndexedPropertiesInExternalArrayData obj = (external obj \<noteq> None)"

definition GetIndexedPropertiesExternalArrayData :: "('w::len) word js_object \<Rightarrow> 'w word" where
  "GetIndexedPropertiesExternalArrayData obj =
     (case external obj of None \<Rightarrow> 0 | Some e \<Rightarrow> ea_data e)"

definition GetIndexedPropertiesExternalArrayDataLength :: "('w::len) word js_object \<Rightarrow> 'w word" where
  "GetIndexedPropertiesExternalArrayDataLength obj =
     (case external obj of None \<Rightarrow> - 1 | Some e \<Rightarrow> ea_length e)"

definition GetIndexedPropertiesExternalArrayDataType :: "'a js_object \<Rightarrow> ExternalArrayType" where
  "GetIndexedPropertiesExternalArrayDataType obj =
     (case external obj of None \<Rightarrow> kExternalUnrecognized | Some e \<Rightarrow> ea_type e)"

definition SetIndexedPropertiesToExternalArrayData ::
    "'a js_object \<Rightarrow> 'a \<Rightarrow> ExternalArrayType \<Rightarrow> 'a \<Rightarrow> 'a js_object" where
  "SetIndexedPropertiesToExternalArrayData obj data array_type len =
     obj\<lparr>external := Some \<lparr>ea_data = data, ea_type = array_type, ea_length = len\<rparr>\<rparr>"

text \<open>
  The conversion of a \<open>size_t\<close> to the \<open>int64_t\<close> that
  \<open>AdjustAmountOfExternalAllocatedMemory\<close> takes, and \<open>-static_cast<int64_t>(len)\<close>.
\<close>

definition to_int64 :: "'w::len word \<Rightarrow> int" where
  "to_int64 len = sint (ucast len :: 64 word)"

definition neg_int64 :: "'w::len word \<Rightarrow> int" where
  "neg_int64 len = sint (- (ucast len :: 64 word))"

text \<open>
  \<open>sizeof(CallbackInfo)\<close>: a \<open>void*\<close>, a function pointer and a persistent handle,
  three members of pointer size.
\<close>

definition sizeof_CallbackInfo :: "'w::len word" where
  "sizeof_CallbackInfo = of_nat (3 * (LENGTH('w) div 8))"

text \<open>\<open>memmove(dest, src, n)\<close>: the \<open>n\<close> bytes are read before any is written.\<close>

definition memmove :: "('w::len word \<Rightarrow> 8 word) \<Rightarrow> 'w word \<Rightarrow> 'w word \<Rightarrow> 'w word \<Rightarrow> ('w word \<Rightarrow> 8 word)" where
  "memmove mem dest src n = (\<lambda>a. if a - dest < n then mem (src + (a - dest)) else mem a)"

section \<open>CopyOnto\<close>

text \<open>
  Lines 132 to 149: the scaling of the three lengths. The result is the exception
  thrown there, or the lengths \<open>(source_length, copy_length, dest_length)\<close> that the
  bounds checks then use.
\<close>

definition copy_scale ::
    "'w::len word \<Rightarrow> 'w word \<Rightarrow> 'w word \<Rightarrow> 'w word \<Rightarrow> 'w word
      \<Rightarrow> outcome + ('w word \<times> 'w word \<times> 'w word)" where
  "copy_scale source_size' dest_size source_length copy_length dest_length =
     (if source_size' \<noteq> 1 \<and> dest_size \<noteq> 1 then
        if source_size' = 0 then Inl (ThrowTypeError ''unknown source external array type'')
        else if dest_size = 0 then Inl (ThrowTypeError ''unknown dest external array type'')
        else if source_length * source_size' < source_length
          then Inl (ThrowRangeError ''source_length * source_size overflow'')
        else if copy_length * source_size' < copy_length
          then Inl (ThrowRangeError ''copy_length * source_size overflow'')
        else if dest_length * dest_size < dest_length
          then Inl (ThrowRangeError ''dest_length * dest_size overflow'')
        else Inr (source_length * source_size', copy_length * source_size',
                  dest_length * dest_size)
      else Inr (source_length, copy_length, dest_length))"

text \<open>Lines 151 to 165: the six bounds checks; the result is the message thrown, if any.\<close>

definition copy_bounds ::
    "'w::len word \<Rightarrow> 'w word \<Rightarrow> 'w word \<Rightarrow> 'w word \<Rightarrow> 'w word \<Rightarrow> string option" where
  "copy_bounds source_start dest_start copy_length source_length dest_length =
     (if copy_length > source_length then Some ''copy_length > source_length''
      else if copy_length > dest_length then Some ''copy_length > dest_length''
      else if source_start > source_length then Some ''source_start > source_length''
      else if dest_start > dest_length then Some ''dest_start > dest_length''
      else if source_start + copy_length > source_length
        then Some ''source_start + copy_length > source_length''
      else if dest_start + copy_length > dest_length
        then Some ''dest_start + copy_length > dest_length''
      else None)"

text \<open>\<open>copyOnto(source, source_start, dest, dest_start, copy_length)\<close>.\<close>

definition CopyOnto ::
    "('w::len) word state \<Rightarrow> js_value \<Rightarrow> uint32 \<Rightarrow> js_value \<Rightarrow> uint32 \<Rightarrow> uint32
      \<Rightarrow> outcome \<times> 'w word state" where
  "CopyOnto s arg0 arg1 arg2 arg3 arg4 =
     (case arg0 of
        JSPrimitive \<Rightarrow> (ThrowTypeError ''source must be an object'', s)
      | JSObject source \<Rightarrow>
     (case arg2 of
        JSPrimitive \<Rightarrow> (ThrowTypeError ''dest must be an object'', s)
      | JSObject dest \<Rightarrow>
        if \<not> HasIndexedPropertiesInExternalArrayData (objects s source)
          then (ThrowError ''source has no external array data'', s)
        else if \<not> HasIndexedPropertiesInExternalArrayData (objects s dest)
          then (ThrowError ''dest has no external array data'', s)
        else
          let source_start = ucast arg1;
              dest_start = ucast arg3;
              copy_length = ucast arg4;
              source_data = GetIndexedPropertiesExternalArrayData (objects s source);
              dest_data = GetIndexedPropertiesExternalArrayData (objects s dest);
              source_length = GetIndexedPropertiesExternalArrayDataLength (objects s source);
              source_size' =
                ExternalArraySize (GetIndexedPropertiesExternalArrayDataType (objects s source));
              dest_length = GetIndexedPropertiesExternalArrayDataLength (objects s dest);
              dest_size =
                ExternalArraySize (GetIndexedPropertiesExternalArrayDataType (objects s dest))
          in (case copy_scale source_size' dest_size source_length copy_length dest_length of
               Inl thrown \<Rightarrow> (thrown, s)
             | Inr (source_length, copy_length, dest_length) \<Rightarrow>
                (case copy_bounds source_start dest_start copy_length source_length dest_length of
                   Some message \<Rightarrow> (ThrowRangeError message, s)
                 | None \<Rightarrow>
                    (Returned,
                     s\<lparr>memory := memmove (memory s) (dest_data + dest_start)
                                   (source_data + source_start) copy_length\<rparr>)))))"

section \<open>SliceOnto\<close>

text \<open>\<open>sliceOnto(source, dest, start, end)\<close>, for internal use.\<close>

definition SliceOnto ::
    "('w::len) word state \<Rightarrow> nat \<Rightarrow> nat \<Rightarrow> uint32 \<Rightarrow> uint32 \<Rightarrow> outcome \<times> 'w word state" where
  "SliceOnto s source dest arg2 arg3 =
     (if \<not> HasIndexedPropertiesInExternalArrayData (objects s source)
        then (AssertionFailed ''source->HasIndexedPropertiesInExternalArrayData()'', s)
      else if HasIndexedPropertiesInExternalArrayData (objects s dest)
        then (AssertionFailed ''!dest->HasIndexedPropertiesInExternalArrayData()'', s)
      else
        let source_data = GetIndexedPropertiesExternalArrayData (objects s source);
            source_len = GetIndexedPropertiesExternalArrayDataLength (objects s source);
            source_type = GetIndexedPropertiesExternalArrayDataType (objects s source);
            source_size' = ExternalArraySize source_type
        in
          if source_size' = 0 then (AssertionFailed ''source_size != 0'', s)
          else
            let start = ucast arg2;
                end' = ucast arg3;
                length0 = end' - start
            in
              if source_size' > 1 \<and> \<not> length0 * source_size' \<ge> length0
                then (AssertionFailed ''length * source_size >= length'', s)
              else
                let length' = (if source_size' > 1 then length0 * source_size' else length0)
                in
                  if \<not> (source_data \<noteq> 0 \<or> length' = 0)
                    then (AssertionFailed ''source_data != NULL || length == 0'', s)
                  else if \<not> end' \<le> source_len
                    then (AssertionFailed ''end <= source_len'', s)
                  else if \<not> start \<le> end'
                    then (AssertionFailed ''start <= end'', s)
                  else
                    (Returned,
                     s\<lparr>objects := (objects s)(dest :=
                         SetIndexedPropertiesToExternalArrayData (objects s dest)
                           (source_data + start) source_type length')\<rparr>))"

section \<open>Alloc, default release\<close>

text \<open>\<open>Alloc(env, obj, data, length, type)\<close>, lines 265 to 278.\<close>

definition Alloc_data ::
    "('w::len) word state \<Rightarrow> nat \<Rightarrow> 'w word \<Rightarrow> 'w word \<Rightarrow> ExternalArrayType
      \<Rightarrow> outcome \<times> 'w word state" where
  "Alloc_data s obj data len array_type =
     (if HasIndexedPropertiesInExternalArrayData (objects s obj)
        then (AssertionFailed ''!obj->HasIndexedPropertiesInExternalArrayData()'', s)
      else
        let s1 = s\<lparr>external_memory := external_memory s + to_int64 len,
                   trace := trace s @ [Adjusted (to_int64 len)],
                   weak := weak s @ [(obj, WeakData data)]\<rparr>
        in
          if (ExternalArraySize array_type :: 'w word) = 0 then (DivisionByZero, s1)
          else
            (Returned,
             s1\<lparr>objects := (objects s1)(obj :=
                 SetIndexedPropertiesToExternalArrayData (objects s1 obj)
                   data array_type (len div ExternalArraySize array_type))\<rparr>))"

text \<open>
  \<open>Alloc(env, obj, length, type)\<close>, lines 243 to 262. \<open>kMaxLength\<close> is declared in
  \<open>smalloc.h\<close> as an \<open>unsigned int\<close>; it is a parameter here. \<open>malloc_result\<close> is what
  \<open>malloc(length)\<close> returns, null when the allocation fails. \<open>FatalError\<close> is defined
  in \<open>node.cc\<close>; it reports and terminates the process (section 7 of the spec: ``fatal
  -- the process should terminate with a diagnostic''), so the call ends there.
\<close>

definition Alloc_length ::
    "uint32 \<Rightarrow> ('w::len) word state \<Rightarrow> nat \<Rightarrow> 'w word \<Rightarrow> ExternalArrayType \<Rightarrow> 'w word
      \<Rightarrow> outcome \<times> 'w word state" where
  "Alloc_length kMaxLength s obj len array_type malloc_result =
     (let type_size = (ExternalArraySize array_type :: 'w word) in
        if \<not> len \<le> ucast kMaxLength then (AssertionFailed ''length <= kMaxLength'', s)
        else if \<not> type_size > 0 then (AssertionFailed ''type_size > 0'', s)
        else if len = 0 then Alloc_data s obj 0 len array_type
        else if malloc_result = 0
          then (FatalError
                  ''node::smalloc::Alloc(v8::Handle<v8::Object>, size_t, v8::ExternalArrayType)''
                  ''Out Of Memory'', s)
        else Alloc_data s obj malloc_result len array_type)"

text \<open>
  \<open>alloc(obj, n[, type])\<close>, lines 215 to 240. \<open>arg2\<close> is \<open>None\<close> when the third
  argument is undefined, and otherwise the type that the cast of its \<open>Uint32Value()\<close>
  gives.
\<close>

definition Alloc_args ::
    "uint32 \<Rightarrow> ('w::len) word state \<Rightarrow> nat \<Rightarrow> uint32 \<Rightarrow> ExternalArrayType option \<Rightarrow> 'w word
      \<Rightarrow> outcome \<times> 'w word state" where
  "Alloc_args kMaxLength s obj arg1 arg2 malloc_result =
     (if HasIndexedPropertiesInExternalArrayData (objects s obj)
        then (ThrowTypeError ''object already has external array data'', s)
      else
        let len = (ucast arg1 :: 'w word) in
          case arg2 of
            None \<Rightarrow> Alloc_length kMaxLength s obj len kExternalUnsignedByteArray malloc_result
          | Some array_type \<Rightarrow>
              let type_length = (ExternalArraySize array_type :: 'w word) in
                if \<not> type_length * len \<ge> len
                  then (AssertionFailed ''type_length * length >= length'', s)
                else Alloc_length kMaxLength s obj (len * type_length) array_type malloc_result)"


section \<open>Release through a callback\<close>

text \<open>
  \<open>TargetFreeCallback(isolate, target, cb_info)\<close>, lines 397 to 417. Both callers pass
  \<open>&cb_info->p_obj\<close> as \<open>target\<close>, so the record at \<open>cb_info\<close> is all it reads.
  \<open>p_obj.Reset()\<close> gives up the persistent handle and with it the weak registration
  \<open>SetWeak(cb_info, TargetFreeCallback)\<close>.
\<close>

definition TargetFreeCallback ::
    "('w::len) word state \<Rightarrow> 'w word \<Rightarrow> outcome \<times> 'w word state" where
  "TargetFreeCallback s cb_info =
     (case cb_infos s cb_info of
        None \<Rightarrow> (DanglingCallbackInfo, s)
      | Some info \<Rightarrow>
          let obj = p_obj info;
              data = GetIndexedPropertiesExternalArrayData (objects s obj);
              len = GetIndexedPropertiesExternalArrayDataLength (objects s obj);
              array_type = GetIndexedPropertiesExternalArrayDataType (objects s obj);
              array_size = (ExternalArraySize array_type :: 'w word)
          in
            if \<not> array_size > 0 then (AssertionFailed ''array_size > 0'', s)
            else if array_size > 1 \<and> \<not> len * array_size > len
              then (AssertionFailed ''len * array_size > len'', s)
            else
              let len = (if array_size > 1 then len * array_size else len);
                  change_in_bytes = neg_int64 (len + sizeof_CallbackInfo)
              in
                (Returned,
                 s\<lparr>external_memory := external_memory s + change_in_bytes,
                   weak := filter (\<lambda>r. snd r \<noteq> WeakInfo cb_info) (weak s),
                   cb_infos := (cb_infos s)(cb_info := None),
                   trace := trace s @
                     [Adjusted change_in_bytes, Invoked (cb info) data (hint info),
                      Deleted cb_info]\<rparr>))"

text \<open>
  \<open>Alloc(env, obj, data, length, fn, hint, type)\<close>, lines 368 to 394. \<open>new_info\<close> is
  the address that \<open>new CallbackInfo\<close> yields, \<open>None\<close> when it fails.
\<close>

definition Alloc_data_cb ::
    "('w::len) word state \<Rightarrow> nat \<Rightarrow> 'w word \<Rightarrow> 'w word \<Rightarrow> 'w word \<Rightarrow> 'w word
      \<Rightarrow> ExternalArrayType \<Rightarrow> 'w word option \<Rightarrow> outcome \<times> 'w word state" where
  "Alloc_data_cb s obj data len fn hint' array_type new_info =
     (if HasIndexedPropertiesInExternalArrayData (objects s obj)
        then (AssertionFailed ''!obj->HasIndexedPropertiesInExternalArrayData()'', s)
      else
        let s1 = s\<lparr>using_smalloc_alloc_cb := True\<rparr> in
          case new_info of
            None \<Rightarrow> (BadAlloc, s1)
          | Some cb_info \<Rightarrow>
              let s2 = s1\<lparr>cb_infos := (cb_infos s1)(cb_info :=
                              Some \<lparr>hint = hint', cb = fn, p_obj = obj\<rparr>),
                          objects := (objects s1)(obj :=
                              (objects s1 obj)\<lparr>hidden_smalloc_p := Some cb_info\<rparr>),
                          external_memory :=
                              external_memory s1 + to_int64 (len + sizeof_CallbackInfo),
                          trace := trace s1 @ [Adjusted (to_int64 (len + sizeof_CallbackInfo))],
                          weak := weak s1 @ [(obj, WeakInfo cb_info)]\<rparr>
              in
                if (ExternalArraySize array_type :: 'w word) = 0 then (DivisionByZero, s2)
                else
                  (Returned,
                   s2\<lparr>objects := (objects s2)(obj :=
                       SetIndexedPropertiesToExternalArrayData (objects s2 obj)
                         data array_type (len div ExternalArraySize array_type))\<rparr>))"

text \<open>
  \<open>Alloc(env, obj, length, fn, hint, type)\<close>, lines 348 to 365. \<open>new_data\<close> is the
  address that \<open>new char[length]\<close> yields, \<open>None\<close> when it fails: the expression does
  not return null, it raises \<open>std::bad_alloc\<close>.
\<close>

definition Alloc_length_cb ::
    "uint32 \<Rightarrow> ('w::len) word state \<Rightarrow> nat \<Rightarrow> 'w word \<Rightarrow> 'w word \<Rightarrow> 'w word
      \<Rightarrow> ExternalArrayType \<Rightarrow> 'w word option \<Rightarrow> 'w word option \<Rightarrow> outcome \<times> 'w word state" where
  "Alloc_length_cb kMaxLength s obj len fn hint' array_type new_data new_info =
     (if \<not> len \<le> ucast kMaxLength then (AssertionFailed ''length <= kMaxLength'', s)
      else
        let type_size = (ExternalArraySize array_type :: 'w word) in
          if \<not> type_size > 0 then (AssertionFailed ''type_size > 0'', s)
          else if \<not> len * type_size \<ge> len
            then (AssertionFailed ''length * type_size >= length'', s)
          else
            let len = len * type_size in
              case new_data of
                None \<Rightarrow> (BadAlloc, s)
              | Some data \<Rightarrow> Alloc_data_cb s obj data len fn hint' array_type new_info)"

section \<open>AllocDispose\<close>

text \<open>
  \<open>AllocDispose(env, obj)\<close>, lines 311 to 345. Once \<open>using_smalloc_alloc_cb\<close> is set,
  line 315 asks the object for its hidden value and line 316 calls
  \<open>ext_v->IsExternal()\<close> on what it gets, with no test for an empty handle. An object
  without the hidden value yields an empty handle, so the call goes through a null
  pointer; with the hidden value, the handle is the \<open>External\<close> that
  \<open>Alloc(env, obj, data, length, fn, hint, type)\<close> stored.
\<close>

definition AllocDispose ::
    "('w::len) word state \<Rightarrow> nat \<Rightarrow> outcome \<times> 'w word state" where
  "AllocDispose s obj =
     (if using_smalloc_alloc_cb s
        then (case hidden_smalloc_p (objects s obj) of
                None \<Rightarrow> (EmptyHandle, s)
              | Some cb_info \<Rightarrow> TargetFreeCallback s cb_info)
      else
        let data = GetIndexedPropertiesExternalArrayData (objects s obj);
            len = GetIndexedPropertiesExternalArrayDataLength (objects s obj);
            array_type = GetIndexedPropertiesExternalArrayDataType (objects s obj);
            array_size = (ExternalArraySize array_type :: 'w word)
        in
          if \<not> array_size > 0 then (AssertionFailed ''array_size > 0'', s)
          else if \<not> len * array_size \<ge> len
            then (AssertionFailed ''length * array_size >= length'', s)
          else
            let len = len * array_size;
                s1 = (if data \<noteq> 0
                      then s\<lparr>objects := (objects s)(obj :=
                               SetIndexedPropertiesToExternalArrayData (objects s obj)
                                 0 kExternalUnsignedByteArray 0),
                             trace := trace s @ [Freed data]\<rparr>
                      else s);
                s2 = (if len \<noteq> 0
                      then s1\<lparr>external_memory := external_memory s1 + neg_int64 len,
                              trace := trace s1 @ [Adjusted (neg_int64 len)]\<rparr>
                      else s1)
            in (Returned, s2))"

text \<open>\<open>HasExternalData(env, obj)\<close>.\<close>

definition HasExternalData :: "'a state \<Rightarrow> nat \<Rightarrow> bool" where
  "HasExternalData s obj = HasIndexedPropertiesInExternalArrayData (objects s obj)"

section \<open>The collector\<close>




section \<open>States used in the examples\<close>

text \<open>The state before the module has allocated anything.\<close>

definition empty_state :: "('w::len) word state" where
  "empty_state =
     \<lparr>objects = (\<lambda>obj. \<lparr>external = None, hidden_smalloc_p = None\<rparr>),
      cb_infos = (\<lambda>p. None),
      weak = [],
      external_memory = 0,
      using_smalloc_alloc_cb = False,
      memory = (\<lambda>a. 0),
      trace = []\<rparr>"

text \<open>
  The state after \<open>alloc(obj1, 10, kExternalIntArray)\<close>, \<open>alloc(obj2, 40)\<close> and
  \<open>alloc(obj3, 8)\<close> on a 64-bit build with \<open>kMaxLength = 0x3fffffff\<close>, where the three
  calls of \<open>malloc\<close> gave \<open>0x1000\<close>, \<open>0x2000\<close> and \<open>0x3000\<close>.
\<close>

definition three_buffers :: "64 word state" where
  "three_buffers =
     snd (Alloc_args 0x3fffffff
       (snd (Alloc_args 0x3fffffff
          (snd (Alloc_args 0x3fffffff empty_state 1 10 (Some kExternalIntArray) 0x1000))
          2 40 None 0x2000))
       3 8 None 0x3000)"

text \<open>
  The state after \<open>alloc(obj1, 10, kExternalIntArray)\<close>, and the state after
  \<open>Alloc(env, obj1, 16, fn, hint, kExternalShortArray)\<close> with the callback \<open>0x7000\<close>
  and the hint \<open>0x8000\<close>, each from the empty state of a 64-bit build.
\<close>

definition allocated_ints :: "64 word state" where
  "allocated_ints =
     snd (Alloc_args 0x3fffffff empty_state 1 10 (Some kExternalIntArray) 0x1000)"

definition allocated_with_callback :: "64 word state" where
  "allocated_with_callback =
     snd (Alloc_length_cb 0x3fffffff empty_state 1 16 0x7000 0x8000 kExternalShortArray
            (Some 0x2000) (Some 0x3000))"

section \<open>The bounds of a copy, as the spec lists them\<close>

text \<open>
  Section 4.2 of the spec: ``validates in order: \<open>length \<le> sourceByteLength\<close>,
  \<open>length \<le> destByteLength\<close>, \<open>sourceStart \<le> sourceByteLength\<close>,
  \<open>destStart \<le> destByteLength\<close>, \<open>sourceStart + length \<le> sourceByteLength\<close>,
  \<open>destStart + length \<le> destByteLength\<close>''. The six inequalities are read over the
  natural numbers, each paired with the message that names it.
\<close>

definition six_inequalities :: "nat \<Rightarrow> nat \<Rightarrow> nat \<Rightarrow> nat \<Rightarrow> nat \<Rightarrow> (bool \<times> string) list" where
  "six_inequalities sourceStart destStart len sourceByteLength destByteLength =
     [(len \<le> sourceByteLength, ''copy_length > source_length''),
      (len \<le> destByteLength, ''copy_length > dest_length''),
      (sourceStart \<le> sourceByteLength, ''source_start > source_length''),
      (destStart \<le> destByteLength, ''dest_start > dest_length''),
      (sourceStart + len \<le> sourceByteLength, ''source_start + copy_length > source_length''),
      (destStart + len \<le> destByteLength, ''dest_start + copy_length > dest_length'')]"

definition first_violated :: "nat \<Rightarrow> nat \<Rightarrow> nat \<Rightarrow> nat \<Rightarrow> nat \<Rightarrow> string option" where
  "first_violated sourceStart destStart len sourceByteLength destByteLength =
     map_option snd
       (find (\<lambda>inequality. \<not> fst inequality)
          (six_inequalities sourceStart destStart len sourceByteLength destByteLength))"

section \<open>Allocation followed by disposal\<close>

text \<open>
  A request to allocate: \<open>AllocDefault obj n type malloc_result\<close> is the call
  \<open>alloc(obj, n[, type])\<close>, and \<open>AllocWithCallback obj length fn hint type new_data
  new_info\<close> the call \<open>Alloc(env, obj, length, fn, hint, type)\<close>.
\<close>

datatype 'a request =
    AllocDefault nat uint32 "ExternalArrayType option" 'a
  | AllocWithCallback nat 'a 'a 'a ExternalArrayType "'a option" "'a option"

fun wrapper :: "'a request \<Rightarrow> nat" where
  "wrapper (AllocDefault obj n array_type malloc_result) = obj"
| "wrapper (AllocWithCallback obj len fn hint' array_type new_data new_info) = obj"

fun allocate ::
    "uint32 \<Rightarrow> ('w::len) word state \<Rightarrow> 'w word request \<Rightarrow> outcome \<times> 'w word state" where
  "allocate kMaxLength s (AllocDefault obj n array_type malloc_result) =
     Alloc_args kMaxLength s obj n array_type malloc_result"
| "allocate kMaxLength s (AllocWithCallback obj len fn hint' array_type new_data new_info) =
     Alloc_length_cb kMaxLength s obj len fn hint' array_type new_data new_info"

text \<open>One allocation and the disposal of what it allocated; a list of such pairs.\<close>

definition allocate_dispose ::
    "uint32 \<Rightarrow> ('w::len) word state \<Rightarrow> 'w word request \<Rightarrow> outcome \<times> 'w word state" where
  "allocate_dispose kMaxLength s r =
     (case allocate kMaxLength s r of
        (Returned, s') \<Rightarrow> AllocDispose s' (wrapper r)
      | (other, s') \<Rightarrow> (other, s'))"


text \<open>
  The element type and the byte length that lines 225 to 236 of \<open>alloc\<close> arrive at
  from its second and third argument.
\<close>

definition requested_type :: "ExternalArrayType option \<Rightarrow> ExternalArrayType" where
  "requested_type arg2 = (case arg2 of None \<Rightarrow> kExternalUnsignedByteArray | Some t \<Rightarrow> t)"

definition requested_bytes :: "uint32 \<Rightarrow> ExternalArrayType option \<Rightarrow> 'w::len word" where
  "requested_bytes arg1 arg2 =
     (case arg2 of None \<Rightarrow> ucast arg1 | Some t \<Rightarrow> ucast arg1 * ExternalArraySize t)"



section \<open>Unfolding\<close>

lemmas api_defs =
  HasIndexedPropertiesInExternalArrayData_def GetIndexedPropertiesExternalArrayData_def
  GetIndexedPropertiesExternalArrayDataLength_def GetIndexedPropertiesExternalArrayDataType_def
  SetIndexedPropertiesToExternalArrayData_def HasExternalData_def

lemmas alloc_defs = Alloc_args_def Alloc_length_def Alloc_data_def

lemmas alloc_cb_defs = Alloc_length_cb_def Alloc_data_cb_def

lemmas dispose_defs = AllocDispose_def TargetFreeCallback_def allocate_dispose_def

lemmas example_defs = allocated_ints_def allocated_with_callback_def empty_state_def
  sizeof_CallbackInfo_def to_int64_def neg_int64_def requested_bytes_def

section \<open>Allocation on a wrapper that has a buffer\<close>

text \<open>
  C7. \<open>alloc(obj, n[, type])\<close> on an object that already has external array data
  throws the TypeError ``object already has external array data'' and returns the
  state it was given: nothing is allocated, attached or accounted, and the buffer that
  was attached stays as it was.
\<close>

theorem Alloc_args_already_attached:
  "HasExternalData s obj \<Longrightarrow>
     Alloc_args kMaxLength s obj arg1 arg2 malloc_result =
       (ThrowTypeError ''object already has external array data'', s)"
  by (simp add: Alloc_args_def HasExternalData_def)

theorem Alloc_args_already_attached_witness:
  "HasExternalData
     (snd (Alloc_args 0x3fffffff (empty_state :: 64 word state) 0 4 None 0x1000)) 0 \<and>
   Alloc_args 0x3fffffff
     (snd (Alloc_args 0x3fffffff (empty_state :: 64 word state) 0 4 None 0x1000))
     0 9 (Some kExternalIntArray) 0x2000 =
     (ThrowTypeError ''object already has external array data'',
      snd (Alloc_args 0x3fffffff (empty_state :: 64 word state) 0 4 None 0x1000))"
proof -
  have h: "HasExternalData
     (snd (Alloc_args 0x3fffffff (empty_state :: 64 word state) 0 4 None 0x1000)) 0"
    by (simp add: alloc_defs empty_state_def api_defs Let_def)
  show ?thesis
    using h Alloc_args_already_attached [OF h] by simp
qed

section \<open>Words\<close>

lemma unat_ucast_uint32:
  assumes "32 \<le> LENGTH('w::len)"
  shows "unat (ucast (n :: uint32) :: 'w word) = unat n"
proof -
  have "unat n < 2 ^ 32"
    using unsigned_less [of n] by simp
  also have "(2::nat) ^ 32 \<le> 2 ^ LENGTH('w)"
    by (rule power_increasing) (use assms in simp_all)
  finally show ?thesis
    by (simp add: unsigned_ucast_eq take_bit_nat_eq_self)
qed

section \<open>Allocation with an unrecognized element type\<close>

text \<open>
  C9, as the code has it. \<open>alloc(obj, n, type)\<close> with a type that \<open>ExternalArraySize\<close>
  does not recognize, on an object without external array data, ends in a failed
  assertion: \<open>type_length * length >= length\<close> when \<open>n\<close> is not zero, and
  \<open>type_size > 0\<close> when it is. The state is the one it was given, so nothing was
  allocated, attached or accounted, and no zero-length buffer was made.
\<close>

theorem Alloc_args_unrecognized:
  "\<not> HasExternalData s obj \<Longrightarrow>
     Alloc_args kMaxLength s obj arg1 (Some kExternalUnrecognized) malloc_result =
       (AssertionFailed
          (if (ucast arg1 :: 'w::len word) = 0 then ''type_size > 0''
           else ''type_length * length >= length''),
        (s :: 'w word state))"
  by (simp add: alloc_defs HasExternalData_def Let_def word_le_nat_alt unat_gt_0)

theorem Alloc_args_unrecognized_witness:
  "\<not> HasExternalData (empty_state :: 64 word state) 0 \<and>
   Alloc_args 0x3fffffff (empty_state :: 64 word state) 0 0 (Some kExternalUnrecognized) 0x1000 =
     (AssertionFailed ''type_size > 0'', empty_state)"
proof -
  have h: "\<not> HasExternalData (empty_state :: 64 word state) 0"
    by (simp add: empty_state_def api_defs)
  show ?thesis
    using h Alloc_args_unrecognized [OF h, of "0x3fffffff" 0 "0x1000"] by simp
qed

text \<open>
  C9 as stated asks for a type error that the caller can catch, and no abort. At four
  elements of an unrecognized type the call is a failed assertion, not an exception.
\<close>

theorem Alloc_args_unrecognized_aborts:
  "Alloc_args 0x3fffffff (empty_state :: 64 word state) 0 4 (Some kExternalUnrecognized) 0x1000 =
     (AssertionFailed ''type_length * length >= length'', empty_state) \<and>
   \<not> is_exception
     (fst (Alloc_args 0x3fffffff (empty_state :: 64 word state) 0 4
             (Some kExternalUnrecognized) 0x1000))"
  by (simp add: alloc_defs empty_state_def api_defs Let_def)

section \<open>Allocation of more than \<open>kMaxLength\<close> bytes\<close>

lemma Alloc_args_fits_exceeds:
  fixes s :: "'w::len word state"
  assumes w: "32 \<le> LENGTH('w)"
    and fresh: "\<not> HasExternalData s obj"
    and fits: "unat arg1 * unat (ExternalArraySize t :: 'w word) < 2 ^ LENGTH('w)"
    and exceeds: "unat kMaxLength < unat arg1 * unat (ExternalArraySize t :: 'w word)"
  shows "Alloc_args kMaxLength s obj arg1 (Some t) m =
           (AssertionFailed ''length <= kMaxLength'', s)"
proof -
  let ?len = "ucast arg1 :: 'w word"
  let ?sz = "ExternalArraySize t :: 'w word"
  have len: "unat ?len = unat arg1"
    by (rule unat_ucast_uint32 [OF w])
  have prod: "unat (?sz * ?len) = unat arg1 * unat ?sz"
    using fits by (simp add: unat_mult_lem [THEN iffD1] len mult.commute)
  have pos: "0 < unat ?sz"
    using exceeds by (cases "unat ?sz = 0") simp_all
  have first: "?len \<le> ?sz * ?len"
    using pos by (simp add: word_le_nat_alt prod len)
  have second: "\<not> ?len * ?sz \<le> (ucast kMaxLength :: 'w word)"
    using exceeds
    by (simp add: word_le_nat_alt mult.commute [of ?len ?sz] prod unat_ucast_uint32 [OF w])
  show ?thesis
    using fresh first second
    by (simp add: Alloc_args_def Alloc_length_def HasExternalData_def Let_def)
qed


lemma Alloc_args_wrapped:
  fixes s :: "'w::len word state"
  assumes fresh: "\<not> HasExternalData s obj"
    and wrapped: "(ExternalArraySize t :: 'w word) * ucast arg1 < ucast arg1"
  shows "Alloc_args kMaxLength s obj arg1 (Some t) m =
           (AssertionFailed ''type_length * length >= length'', s)"
  using fresh wrapped
  by (simp add: Alloc_args_def HasExternalData_def Let_def not_le)

lemma Alloc_args_default_type_exceeds:
  fixes s :: "'w::len word state"
  assumes w: "32 \<le> LENGTH('w)"
    and fresh: "\<not> HasExternalData s obj"
    and exceeds: "kMaxLength < arg1"
  shows "Alloc_args kMaxLength s obj arg1 None m =
           (AssertionFailed ''length <= kMaxLength'', s)"
proof -
  have "\<not> (ucast arg1 :: 'w word) \<le> ucast kMaxLength"
    using exceeds by (simp add: word_le_nat_alt word_less_nat_alt unat_ucast_uint32 [OF w])
  then show ?thesis
    using fresh by (simp add: Alloc_args_def Alloc_length_def HasExternalData_def Let_def)
qed

text \<open>
  C6, as the code has it. On an object without external array data, with \<open>size_t\<close> of
  at least 32 bits: when the product of the element count and the element size fits
  \<open>size_t\<close> and exceeds \<open>kMaxLength\<close>, \<open>alloc\<close> ends in the failed assertion
  \<open>length <= kMaxLength\<close>; when the product as \<open>size_t\<close> computes it is smaller than
  the element count, it ends in the failed assertion
  \<open>type_length * length >= length\<close>; and without a type argument a count above
  \<open>kMaxLength\<close> ends in the failed assertion \<open>length <= kMaxLength\<close>. In each case
  the state is the one it was given. The product of a 32-bit count and a size of at
  most 8 always fits a 64-bit \<open>size_t\<close>.
\<close>

theorem Alloc_args_length_asserted:
  fixes s :: "'w::len word state"
  assumes "32 \<le> LENGTH('w)" and "\<not> HasExternalData s obj"
  shows "(unat arg1 * unat (ExternalArraySize t :: 'w word) < 2 ^ LENGTH('w) \<and>
          unat kMaxLength < unat arg1 * unat (ExternalArraySize t :: 'w word) \<longrightarrow>
            Alloc_args kMaxLength s obj arg1 (Some t) m =
              (AssertionFailed ''length <= kMaxLength'', s)) \<and>
         ((ExternalArraySize t :: 'w word) * ucast arg1 < ucast arg1 \<longrightarrow>
            Alloc_args kMaxLength s obj arg1 (Some t) m =
              (AssertionFailed ''type_length * length >= length'', s)) \<and>
         (kMaxLength < arg1 \<longrightarrow>
            Alloc_args kMaxLength s obj arg1 None m =
              (AssertionFailed ''length <= kMaxLength'', s))"
  using assms Alloc_args_fits_exceeds [of s obj arg1 t kMaxLength m]
    Alloc_args_wrapped [of s obj t arg1 kMaxLength m]
    Alloc_args_default_type_exceeds [of s obj kMaxLength arg1 m]
  by blast

theorem Alloc_args_length_asserted_witness:
  "32 \<le> LENGTH(64) \<and> \<not> HasExternalData (empty_state :: 64 word state) 0 \<and>
   Alloc_args 0x3fffffff (empty_state :: 64 word state) 0 0x20000000
       (Some kExternalDoubleArray) 0x1000 =
     (AssertionFailed ''length <= kMaxLength'', empty_state) \<and>
   Alloc_args 0x3fffffff (empty_state :: 64 word state) 0 0x40000000 None 0x1000 =
     (AssertionFailed ''length <= kMaxLength'', empty_state) \<and>
   Alloc_args 0x3fffffff (empty_state :: 32 word state) 0 0x3fffffff
       (Some kExternalFloatArray) 0x1000 =
     (AssertionFailed ''length <= kMaxLength'', empty_state) \<and>
   Alloc_args 0x3fffffff (empty_state :: 32 word state) 0 0x40000000
       (Some kExternalFloatArray) 0x1000 =
     (AssertionFailed ''type_length * length >= length'', empty_state)"
proof -
  have w: "32 \<le> LENGTH(64)" and w': "32 \<le> LENGTH(32)" by simp_all
  have h: "\<not> HasExternalData (empty_state :: 64 word state) 0"
    and h': "\<not> HasExternalData (empty_state :: 32 word state) 0"
    by (simp_all add: empty_state_def api_defs)
  show ?thesis
    using w h
      Alloc_args_length_asserted [OF w h, of "0x20000000" kExternalDoubleArray "0x3fffffff" "0x1000"]
      Alloc_args_length_asserted [OF w h, of "0x40000000" kExternalDoubleArray "0x3fffffff" "0x1000"]
      Alloc_args_length_asserted [OF w' h', of "0x3fffffff" kExternalFloatArray "0x3fffffff" "0x1000"]
      Alloc_args_length_asserted [OF w' h', of "0x40000000" kExternalFloatArray "0x3fffffff" "0x1000"]
    by simp
qed

text \<open>
  C6 as stated asks for a \<open>LengthOverflow\<close> error, which section 7 of the spec counts
  among the errors reported to the caller. At \<open>kMaxLength\<close> elements of a 4-byte type
  (\<open>kMaxLength = 0x3fffffff\<close>) the call is a failed assertion, not an exception.
\<close>

theorem Alloc_args_kMaxLength_ints_aborts:
  "Alloc_args 0x3fffffff (empty_state :: 64 word state) 0 0x3fffffff
       (Some kExternalIntArray) 0x1000 =
     (AssertionFailed ''length <= kMaxLength'', empty_state) \<and>
   \<not> is_exception
     (fst (Alloc_args 0x3fffffff (empty_state :: 64 word state) 0 0x3fffffff
             (Some kExternalIntArray) 0x1000))"
  by (simp add: alloc_defs empty_state_def api_defs Let_def)

text \<open>
  Where \<open>size_t\<close> has 32 bits the first assertion does not see every wrap-around:
  \<open>0x25000000\<close> doubles are \<open>0x128000000\<close> bytes, which wraps to \<open>0x28000000\<close>, not
  smaller than the count and not above \<open>kMaxLength\<close>, and the allocation goes through.
\<close>

lemma Alloc_args_wraps_on_32_bits:
  "Alloc_args 0x3fffffff (empty_state :: 32 word state) 0 0x25000000
       (Some kExternalDoubleArray) 0x1000 =
     (Returned,
      empty_state
        \<lparr>external_memory := 0x28000000,
         trace := [Adjusted 0x28000000],
         weak := [(0, WeakData 0x1000)],
         objects := (objects (empty_state :: 32 word state))(0 :=
            \<lparr>external = Some \<lparr>ea_data = 0x1000, ea_type = kExternalDoubleArray,
                               ea_length = 0x5000000\<rparr>,
             hidden_smalloc_p = None\<rparr>)\<rparr>)"
  by (simp add: alloc_defs empty_state_def api_defs Let_def to_int64_def)

section \<open>Allocation failure\<close>

lemma Alloc_length_Returned_data:
  fixes s :: "'w::len word state"
  assumes "Alloc_length kMaxLength s obj len t m = (Returned, s')" and "len \<noteq> 0"
  shows "m \<noteq> 0 \<and> GetIndexedPropertiesExternalArrayData (objects s' obj) = m"
  using assms
  by (auto simp add: Alloc_length_def Alloc_data_def Let_def api_defs split: if_splits)

text \<open>
  C10, as the code has it. In the default allocation
  \<open>Alloc(env, obj, length, type)\<close>, once the assertions have passed and the length is
  not zero, a null \<open>malloc\<close> result ends in \<open>FatalError\<close> with the signature of the
  function as location and the message ``Out Of Memory'', in the state it was given;
  and when that function returns for a non-zero length, the data it attached is the
  non-null \<open>malloc\<close> result. In the allocation with a callback
  \<open>Alloc(env, obj, length, fn, hint, type)\<close>, once the assertions have passed, a failing
  \<open>new char[length]\<close> leaves the function as \<open>std::bad_alloc\<close> in the state it was
  given: the function has no check and no \<open>FatalError\<close> of its own.
\<close>

theorem Alloc_allocation_failure:
  fixes s :: "'w::len word state"
  shows "(len \<le> ucast kMaxLength \<and> 0 < (ExternalArraySize t :: 'w word) \<and> len \<noteq> 0 \<longrightarrow>
            Alloc_length kMaxLength s obj len t 0 =
              (FatalError
                 ''node::smalloc::Alloc(v8::Handle<v8::Object>, size_t, v8::ExternalArrayType)''
                 ''Out Of Memory'', s)) \<and>
         (Alloc_length kMaxLength s obj len t m = (Returned, s') \<and> len \<noteq> 0 \<longrightarrow>
            m \<noteq> 0 \<and> GetIndexedPropertiesExternalArrayData (objects s' obj) = m) \<and>
         (len \<le> ucast kMaxLength \<and> 0 < (ExternalArraySize t :: 'w word) \<and>
          len \<le> len * ExternalArraySize t \<longrightarrow>
            Alloc_length_cb kMaxLength s obj len fn hint' t None new_info = (BadAlloc, s))"
  using Alloc_length_Returned_data [of kMaxLength s obj len t m s']
  by (simp add: Alloc_length_def Alloc_length_cb_def Let_def)

theorem Alloc_allocation_failure_witness:
  "(16 :: 64 word) \<le> ucast (0x3fffffff :: uint32) \<and>
   0 < (ExternalArraySize kExternalIntArray :: 64 word) \<and> (16 :: 64 word) \<noteq> 0 \<and>
   (16 :: 64 word) \<le> 16 * ExternalArraySize kExternalIntArray \<and>
   Alloc_length 0x3fffffff (empty_state :: 64 word state) 0 16 kExternalIntArray 0 =
     (FatalError
        ''node::smalloc::Alloc(v8::Handle<v8::Object>, size_t, v8::ExternalArrayType)''
        ''Out Of Memory'', empty_state) \<and>
   GetIndexedPropertiesExternalArrayData
     (objects (snd (Alloc_length 0x3fffffff (empty_state :: 64 word state) 0 16
                      kExternalIntArray 0x1000)) 0) = 0x1000 \<and>
   Alloc_length_cb 0x3fffffff (empty_state :: 64 word state) 0 16 0x7000 0x8000
       kExternalIntArray None (Some 0x3000) = (BadAlloc, empty_state)"
proof -
  have r: "Alloc_length 0x3fffffff (empty_state :: 64 word state) 0 16 kExternalIntArray 0x1000 =
             (Returned,
              snd (Alloc_length 0x3fffffff (empty_state :: 64 word state) 0 16
                     kExternalIntArray 0x1000))"
    by (simp add: Alloc_length_def Alloc_data_def Let_def api_defs empty_state_def)
  show ?thesis
    using r Alloc_allocation_failure
          [of 16 "0x3fffffff" kExternalIntArray "empty_state :: 64 word state" 0
              "0x1000"
              "snd (Alloc_length 0x3fffffff (empty_state :: 64 word state) 0 16
                     kExternalIntArray 0x1000)"
              "0x7000" "0x8000" "Some 0x3000"]
    by simp
qed

text \<open>
  C10 as stated has both allocations end in a fatal error that names the failing
  operation. The allocation with a callback ends in \<open>std::bad_alloc\<close>.
\<close>

theorem Alloc_length_cb_bad_alloc:
  "Alloc_length_cb 0x3fffffff (empty_state :: 64 word state) 0 16 0x7000 0x8000
       kExternalUnsignedByteArray None (Some 0x3000) = (BadAlloc, empty_state)"
  by (simp add: Alloc_length_cb_def Let_def)

section \<open>The bounds checks of CopyOnto\<close>

lemma copy_bounds_first_violated:
  fixes source_length :: "'w::len word"
  assumes "unat source_length < 2 ^ (LENGTH('w) - 1)"
    and "unat dest_length < 2 ^ (LENGTH('w) - 1)"
  shows "copy_bounds source_start dest_start copy_length source_length dest_length =
         first_violated (unat source_start) (unat dest_start) (unat copy_length)
           (unat source_length) (unat dest_length)"
proof -
  have "LENGTH('w) = Suc (LENGTH('w) - 1)"
    by simp
  then have "(2::nat) ^ LENGTH('w) = 2 * 2 ^ (LENGTH('w) - 1)"
    by (metis power_Suc)
  then have half: "(2::nat) ^ (LENGTH('w) - 1) + 2 ^ (LENGTH('w) - 1) = 2 ^ LENGTH('w)"
    by simp
  have src: "unat (source_start + copy_length) = unat source_start + unat copy_length"
    if "source_start \<le> source_length" "copy_length \<le> source_length"
    using that assms(1) half
    by (simp add: unat_add_lem [THEN iffD1] word_le_nat_alt)
  have dst: "unat (dest_start + copy_length) = unat dest_start + unat copy_length"
    if "dest_start \<le> dest_length" "copy_length \<le> dest_length"
    using that assms(2) half
    by (simp add: unat_add_lem [THEN iffD1] word_le_nat_alt)
  show ?thesis
    using src dst
    by (auto simp add: copy_bounds_def first_violated_def six_inequalities_def
          word_less_nat_alt word_le_nat_alt not_le not_less)
qed

lemma three_buffers_objects:
  "objects three_buffers =
     (\<lambda>obj. \<lparr>external = None, hidden_smalloc_p = None\<rparr>)
       (1 := \<lparr>external = Some \<lparr>ea_data = 0x1000, ea_type = kExternalIntArray, ea_length = 10\<rparr>,
              hidden_smalloc_p = None\<rparr>,
        2 := \<lparr>external = Some \<lparr>ea_data = 0x2000, ea_type = kExternalUnsignedByteArray,
                                ea_length = 40\<rparr>,
              hidden_smalloc_p = None\<rparr>,
        3 := \<lparr>external = Some \<lparr>ea_data = 0x3000, ea_type = kExternalUnsignedByteArray,
                                ea_length = 8\<rparr>,
              hidden_smalloc_p = None\<rparr>)"
  by (simp add: three_buffers_def alloc_defs empty_state_def api_defs Let_def)

text \<open>
  The checks on the lengths that the scaling step (lines 132 to 149) leaves: on two
  objects that have external array data, with \<open>size_t\<close> of at least 32 bits and both
  lengths below half the range of \<open>size_t\<close>, if one of the six inequalities is violated
  by these lengths and the two start offsets, the call throws the RangeError whose
  message names the first violated one, and returns the state it was given.
\<close>

lemma CopyOnto_bounds_after_scaling:
  fixes s :: "'w::len word state"
  assumes w: "32 \<le> LENGTH('w)"
    and has: "HasExternalData s source" "HasExternalData s dest"
    and scale:
      "copy_scale
         (ExternalArraySize (GetIndexedPropertiesExternalArrayDataType (objects s source)))
         (ExternalArraySize (GetIndexedPropertiesExternalArrayDataType (objects s dest)))
         (GetIndexedPropertiesExternalArrayDataLength (objects s source))
         (ucast arg4)
         (GetIndexedPropertiesExternalArrayDataLength (objects s dest)) =
       Inr (source_length, copy_length, dest_length)"
    and half: "unat source_length < 2 ^ (LENGTH('w) - 1)"
      "unat dest_length < 2 ^ (LENGTH('w) - 1)"
    and violated:
      "first_violated (unat arg1) (unat arg3) (unat copy_length)
         (unat source_length) (unat dest_length) = Some message"
  shows "CopyOnto s (JSObject source) arg1 (JSObject dest) arg3 arg4 =
           (ThrowRangeError message, s)"
proof -
  have "copy_bounds (ucast arg1) (ucast arg3) copy_length source_length dest_length =
          Some message"
    using violated
    by (simp add: copy_bounds_first_violated [OF half] unat_ucast_uint32 [OF w])
  then show ?thesis
    using has scale by (simp add: CopyOnto_def HasExternalData_def Let_def)
qed

text \<open>
  C2, a defect of the code, the one of C4. The six checks run on the lengths that the
  scaling step leaves, and with exactly one single-byte side that step scales nothing,
  so the checks do not compare byte lengths. Object 1 holds ten 4-byte integers (40
  bytes), object 3 holds eight bytes.

  \<open>copyOnto(obj1, 0, obj3, 0, 3)\<close> asks for 3 integers, that is 12 bytes, more than
  the 8 bytes of the destination: the inequality \<open>length \<le> destByteLength\<close> is
  violated, yet the call returns and moves 3 bytes.

  \<open>copyOnto(obj1, 20, obj3, 9, 0)\<close> violates \<open>destStart \<le> destByteLength\<close> and no
  earlier inequality (20 is within the 40 bytes of the source), yet the call throws the
  RangeError that names \<open>sourceStart \<le> sourceByteLength\<close>.
\<close>

theorem CopyOnto_mixed_widths_bounds:
  "CopyOnto three_buffers (JSObject 1) 0 (JSObject 3) 0 3 =
     (Returned, three_buffers\<lparr>memory := memmove (memory three_buffers) 0x3000 0x1000 3\<rparr>) \<and>
   first_violated 0 0 12 40 8 = Some ''copy_length > dest_length'' \<and>
   CopyOnto three_buffers (JSObject 1) 20 (JSObject 3) 9 0 =
     (ThrowRangeError ''source_start > source_length'', three_buffers) \<and>
   first_violated 20 9 0 40 8 = Some ''dest_start > dest_length''"
  by (simp add: CopyOnto_def copy_scale_def copy_bounds_def three_buffers_objects api_defs
        Let_def first_violated_def six_inequalities_def)

section \<open>The scaling step of CopyOnto\<close>

text \<open>
  C4, a defect of the code. The test at line 133 is
  \<open>source_size != 1 && dest_size != 1\<close>, so the lengths are scaled only when neither
  side has single-byte elements. Copying from the ten 4-byte integers of object 1 to
  the forty bytes of object 2 with a length of 10 leaves all three lengths unscaled
  and moves 10 bytes; the claim has \<open>source_length\<close> and \<open>copy_length\<close> scaled by 4,
  which moves 40 bytes.
\<close>

theorem CopyOnto_ints_to_bytes_unscaled:
  "copy_scale (ExternalArraySize kExternalIntArray) (ExternalArraySize kExternalUnsignedByteArray)
     10 10 40 = Inr (10, 10, 40 :: 64 word) \<and>
   CopyOnto three_buffers (JSObject 1) 0 (JSObject 2) 0 10 =
     (Returned, three_buffers\<lparr>memory := memmove (memory three_buffers) 0x2000 0x1000 10\<rparr>)"
  by (simp add: CopyOnto_def copy_scale_def copy_bounds_def three_buffers_objects api_defs Let_def)

text \<open>Where neither side has single-byte elements the three lengths are scaled.\<close>

lemma copy_scale_both_wide:
  fixes source_length :: "'w::len word"
  assumes "1 < source_size'" and "1 < dest_size"
    and "\<not> source_length * source_size' < source_length"
    and "\<not> copy_length * source_size' < copy_length"
    and "\<not> dest_length * dest_size < dest_length"
  shows "copy_scale source_size' dest_size source_length copy_length dest_length =
           Inr (source_length * source_size', copy_length * source_size',
                dest_length * dest_size)"
  using assms by (auto simp add: copy_scale_def)

section \<open>SliceOnto on wider elements\<close>

text \<open>
  C5, a defect of the code. \<open>sliceOnto(obj1, obj4, 1, 3)\<close> on the ten 4-byte integers
  at \<open>0x1000\<close> attaches to object 4 the data pointer \<open>0x1001\<close> (the start is added
  unscaled) with the integer type and a length of 8 elements (the byte length is passed
  where the element count belongs), that is 32 bytes from \<open>0x1001\<close>. The claim has the
  data pointer \<open>0x1004\<close> and 8 bytes.
\<close>

theorem SliceOnto_ints_unscaled_start:
  "SliceOnto three_buffers 1 4 1 3 =
     (Returned,
      three_buffers\<lparr>objects := (objects three_buffers)(4 :=
        \<lparr>external = Some \<lparr>ea_data = 0x1001, ea_type = kExternalIntArray, ea_length = 8\<rparr>,
         hidden_smalloc_p = None\<rparr>)\<rparr>)"
  by (simp add: SliceOnto_def three_buffers_objects api_defs Let_def)

theorem SliceOnto_ints_unscaled_start_witness:
  "fst (SliceOnto three_buffers 1 4 1 3) = Returned \<and>
   GetIndexedPropertiesExternalArrayData
     (objects (snd (SliceOnto three_buffers 1 4 1 3)) 4) = 0x1001 \<and>
   GetIndexedPropertiesExternalArrayDataLength
     (objects (snd (SliceOnto three_buffers 1 4 1 3)) 4) = 8 \<and>
   GetIndexedPropertiesExternalArrayDataType
     (objects (snd (SliceOnto three_buffers 1 4 1 3)) 4) = kExternalIntArray"
  using SliceOnto_ints_unscaled_start by (simp add: api_defs)

text \<open>
  On single-byte elements \<open>sliceOnto\<close> does attach the sub-range: the data pointer
  moved by \<open>start\<close>, the length \<open>end - start\<close>, the type of the source.
\<close>

lemma SliceOnto_single_byte:
  fixes s :: "'w::len word state"
  assumes source: "external (objects s source) =
                     Some \<lparr>ea_data = d, ea_type = t, ea_length = n\<rparr>"
    and byte: "(ExternalArraySize t :: 'w word) = 1"
    and dest: "\<not> HasExternalData s dest"
    and range: "(ucast arg2 :: 'w word) \<le> ucast arg3" "(ucast arg3 :: 'w word) \<le> n"
    and data: "d \<noteq> 0 \<or> (ucast arg3 :: 'w word) = ucast arg2"
  shows "SliceOnto s source dest arg2 arg3 =
           (Returned,
            s\<lparr>objects := (objects s)(dest :=
               (objects s dest)\<lparr>external := Some
                  \<lparr>ea_data = d + ucast arg2, ea_type = t,
                   ea_length = ucast arg3 - ucast arg2\<rparr>\<rparr>)\<rparr>)"
  using assms by (auto simp add: SliceOnto_def api_defs Let_def)

section \<open>Byte lengths and element counts\<close>

lemma unat_small:
  assumes "n < 2 ^ LENGTH('w::len)"
  shows "unat (of_nat n :: 'w word) = n"
  using assms by (simp add: unsigned_of_nat take_bit_nat_eq_self)

lemma unat_ExternalArraySize:
  assumes "32 \<le> LENGTH('w::len)"
  shows "unat (ExternalArraySize t :: 'w word) \<in> {0, 1, 2, 4, 8}"
proof -
  have "(2::nat) ^ 32 \<le> 2 ^ LENGTH('w)"
    by (rule power_increasing) (use assms in simp_all)
  then have big: "(8::nat) < 2 ^ LENGTH('w)" by simp
  have "unat (of_nat 2 :: 'w word) = 2" "unat (of_nat 4 :: 'w word) = 4"
    "unat (of_nat 8 :: 'w word) = 8"
    using big by (simp_all only: unat_small)
  then have "unat (2 :: 'w word) = 2" "unat (4 :: 'w word) = 4" "unat (8 :: 'w word) = 8"
    by simp_all
  then show ?thesis
    by (cases t) simp_all
qed

lemma ExternalArraySize_dvd:
  assumes "32 \<le> LENGTH('w::len)" and "(ExternalArraySize t :: 'w word) \<noteq> 0"
  shows "unat (ExternalArraySize t :: 'w word) dvd 2 ^ LENGTH('w)"
proof -
  have "unat (ExternalArraySize t :: 'w word) \<noteq> 0"
    using assms(2) by (simp add: unat_eq_zero)
  then have "unat (ExternalArraySize t :: 'w word) \<in> {2 ^ 0, 2 ^ 1, 2 ^ 2, 2 ^ 3}"
    using unat_ExternalArraySize [OF assms(1), of t] by auto
  moreover have "(3::nat) \<le> LENGTH('w)"
    using assms(1) by simp
  ultimately show ?thesis
    by (auto simp only: insert_iff empty_iff intro!: le_imp_power_dvd)
qed

lemma bytes_div_size_mult:
  fixes x :: "'w::len word"
  assumes w: "32 \<le> LENGTH('w)" and nz: "(ExternalArraySize t :: 'w word) \<noteq> 0"
  shows "(x * ExternalArraySize t) div ExternalArraySize t * ExternalArraySize t =
           x * ExternalArraySize t"
proof -
  let ?sz = "ExternalArraySize t :: 'w word"
  let ?len = "x * ?sz"
  have "unat ?sz dvd (unat x * unat ?sz) mod 2 ^ LENGTH('w)"
    using ExternalArraySize_dvd [OF w nz] by (simp add: dvd_mod)
  then have d: "unat ?sz dvd unat ?len"
    by (simp add: unat_word_ariths)
  have "unat (?len div ?sz * ?sz) = unat (?len div ?sz) * unat ?sz mod 2 ^ LENGTH('w)"
    by (rule unat_word_ariths(2))
  also have "\<dots> = (unat ?len div unat ?sz * unat ?sz) mod 2 ^ LENGTH('w)"
    by (simp only: unat_div)
  also have "\<dots> = unat ?len mod 2 ^ LENGTH('w)"
    using d by simp
  also have "\<dots> = unat ?len"
    by (simp add: unsigned_less)
  finally show ?thesis
    by (simp add: word_unat_eq_iff)
qed

lemma word_div_le_self: "(a :: 'w::len word) div b \<le> a"
  by (simp add: word_le_nat_alt unat_div div_le_dividend)

text \<open>The two conversions to \<open>int64_t\<close> on lengths below \<open>2^63\<close>.\<close>

lemma int64_of_small:
  fixes x :: "'w::len word"
  assumes "unat x < 2 ^ 63"
  shows "to_int64 x = int (unat x)" and "neg_int64 x = - int (unat x)"
proof -
  let ?y = "ucast x :: 64 word"
  let ?k = "int (unat x)"
  have u: "unat ?y = unat x"
    using assms by (simp add: unsigned_ucast_eq take_bit_nat_eq_self)
  have ui: "uint ?y = ?k"
    using u by (metis uint_nat)
  have bound: "?k < 2 ^ 63"
    using assms by (metis of_nat_less_iff of_nat_numeral of_nat_power)
  have nonneg: "0 \<le> ?k"
    by simp
  have "signed_take_bit 63 ?k = ?k"
    by (rule signed_take_bit_int_eq_self) (use bound nonneg in linarith)+
  then have s: "sint ?y = ?k"
    by (simp only: sint_uint ui) simp
  have "signed_take_bit 63 (- ?k) = - ?k"
    by (rule signed_take_bit_int_eq_self) (use bound nonneg in linarith)+
  then have n: "sint (- ?y) = - ?k"
    by (simp only: sint_word_minus s) simp
  show "to_int64 x = ?k"
    by (simp only: to_int64_def s)
  show "neg_int64 x = - ?k"
    by (simp only: neg_int64_def n)
qed

section \<open>Default allocation, then disposal\<close>

lemma Alloc_args_Returned:
  fixes s :: "'w::len word state"
  assumes "Alloc_args kMaxLength s obj arg1 arg2 m = (Returned, s1)"
  shows "\<not> HasExternalData s obj"
    and "(ExternalArraySize (requested_type arg2) :: 'w word) \<noteq> 0"
    and "(requested_bytes arg1 arg2 :: 'w word) \<le> ucast kMaxLength"
    and "(requested_bytes arg1 arg2 :: 'w word) \<noteq> 0 \<Longrightarrow> m \<noteq> 0"
    and "Alloc_data s obj (if (requested_bytes arg1 arg2 :: 'w word) = 0 then 0 else m)
           (requested_bytes arg1 arg2) (requested_type arg2) = (Returned, s1)"
  using assms
  by (auto simp add: Alloc_args_def Alloc_length_def HasExternalData_def requested_type_def
        requested_bytes_def Let_def word_greater_zero_iff
      split: if_splits option.splits)

lemma Alloc_data_Returned:
  fixes s :: "'w::len word state"
  assumes "Alloc_data s obj d len t = (Returned, s1)"
  shows "objects s1 = (objects s)(obj :=
           (objects s obj)\<lparr>external := Some \<lparr>ea_data = d, ea_type = t,
              ea_length = len div ExternalArraySize t\<rparr>\<rparr>)"
    and "external_memory s1 = external_memory s + to_int64 len"
    and "trace s1 = trace s @ [Adjusted (to_int64 len)]"
    and "weak s1 = weak s @ [(obj, WeakData d)]"
    and "cb_infos s1 = cb_infos s"
    and "using_smalloc_alloc_cb s1 = using_smalloc_alloc_cb s"
    and "memory s1 = memory s"
  using assms
  by (auto simp add: Alloc_data_def api_defs Let_def split: if_splits)


lemma AllocDispose_default:
  fixes s :: "'w::len word state"
  assumes branch: "\<not> using_smalloc_alloc_cb s"
    and ext: "external (objects s obj) = Some \<lparr>ea_data = d, ea_type = t, ea_length = cnt\<rparr>"
    and size: "(ExternalArraySize t :: 'w word) \<noteq> 0"
    and no_wrap: "cnt \<le> cnt * ExternalArraySize t"
  shows "fst (AllocDispose s obj) = Returned"
    and "objects (snd (AllocDispose s obj)) =
           (if d \<noteq> 0
            then (objects s)(obj := (objects s obj)\<lparr>external :=
                   Some \<lparr>ea_data = 0, ea_type = kExternalUnsignedByteArray, ea_length = 0\<rparr>\<rparr>)
            else objects s)"
    and "trace (snd (AllocDispose s obj)) =
           trace s @ (if d \<noteq> 0 then [Freed d] else []) @
             (if cnt * ExternalArraySize t \<noteq> 0
              then [Adjusted (neg_int64 (cnt * ExternalArraySize t))] else [])"
    and "external_memory (snd (AllocDispose s obj)) =
           external_memory s +
             (if cnt * ExternalArraySize t \<noteq> 0 then neg_int64 (cnt * ExternalArraySize t) else 0)"
    and "weak (snd (AllocDispose s obj)) = weak s"
    and "cb_infos (snd (AllocDispose s obj)) = cb_infos s"
    and "using_smalloc_alloc_cb (snd (AllocDispose s obj)) = using_smalloc_alloc_cb s"
    and "memory (snd (AllocDispose s obj)) = memory s"
  using assms
  by (auto simp add: AllocDispose_def api_defs Let_def word_greater_zero_iff)


lemma requested_bytes_product:
  "(requested_bytes arg1 arg2 :: 'w::len word) =
     ucast arg1 * ExternalArraySize (requested_type arg2)"
  by (simp add: requested_bytes_def requested_type_def split: option.splits)

lemma below_kMaxLength_small:
  fixes len :: "'w::len word"
  assumes "32 \<le> LENGTH('w)" and "len \<le> ucast (kMaxLength :: uint32)"
  shows "unat len < 2 ^ 32"
proof -
  have "unat len \<le> unat kMaxLength"
    using assms by (simp add: word_le_nat_alt unat_ucast_uint32)
  also have "unat kMaxLength < 2 ^ 32"
    using unsigned_less [of kMaxLength] by simp
  finally show ?thesis .
qed

lemma Alloc_args_then_AllocDispose:
  fixes s :: "'w::len word state"
  assumes w: "32 \<le> LENGTH('w)"
    and alloc: "Alloc_args kMaxLength s obj arg1 arg2 m = (Returned, s1)"
    and unused: "\<not> using_smalloc_alloc_cb s"
  shows "fst (AllocDispose s1 obj) = Returned"
    and "external_memory (snd (AllocDispose s1 obj)) = external_memory s"
    and "trace (snd (AllocDispose s1 obj)) =
           trace s @ [Adjusted (int (unat (requested_bytes arg1 arg2 :: 'w word)))] @
             (if (requested_bytes arg1 arg2 :: 'w word) \<noteq> 0
              then [Freed m, Adjusted (- int (unat (requested_bytes arg1 arg2 :: 'w word)))]
              else [])"
    and "objects (snd (AllocDispose s1 obj)) =
           (objects s)(obj := (objects s obj)\<lparr>external := Some
              (if (requested_bytes arg1 arg2 :: 'w word) \<noteq> 0
               then \<lparr>ea_data = 0, ea_type = kExternalUnsignedByteArray, ea_length = 0\<rparr>
               else \<lparr>ea_data = 0, ea_type = requested_type arg2, ea_length = 0\<rparr>)\<rparr>)"
    and "weak (snd (AllocDispose s1 obj)) =
           weak s @ [(obj, WeakData (if (requested_bytes arg1 arg2 :: 'w word) = 0 then 0 else m))]"
    and "cb_infos (snd (AllocDispose s1 obj)) = cb_infos s"
    and "using_smalloc_alloc_cb (snd (AllocDispose s1 obj)) = using_smalloc_alloc_cb s"
proof -
  let ?B = "requested_bytes arg1 arg2 :: 'w word"
  let ?t = "requested_type arg2"
  let ?sz = "ExternalArraySize ?t :: 'w word"
  let ?d = "if ?B = 0 then 0 else m"
  note r = Alloc_args_Returned [OF alloc]
  note a = Alloc_data_Returned [OF r(5)]
  have mult: "?B div ?sz * ?sz = ?B"
    unfolding requested_bytes_product by (rule bytes_div_size_mult [OF w r(2)])
  have small: "unat ?B < 2 ^ 63"
    using below_kMaxLength_small [OF w r(3)] by simp
  note i = int64_of_small [OF small]
  have branch: "\<not> using_smalloc_alloc_cb s1"
    using unused by (simp add: a(6))
  have ext: "external (objects s1 obj) =
               Some \<lparr>ea_data = ?d, ea_type = ?t, ea_length = ?B div ?sz\<rparr>"
    by (simp add: a(1))
  have no_wrap: "?B div ?sz \<le> ?B div ?sz * ?sz"
    unfolding mult by (rule word_div_le_self)
  note d = AllocDispose_default [OF branch ext r(2) no_wrap, unfolded mult]
  have zero: "?B = 0 \<Longrightarrow> ?B div ?sz = 0"
    by simp
  show "fst (AllocDispose s1 obj) = Returned"
    by (rule d(1))
  show "external_memory (snd (AllocDispose s1 obj)) = external_memory s"
    by (simp add: d(4) a(2) i)
  show "trace (snd (AllocDispose s1 obj)) =
           trace s @ [Adjusted (int (unat ?B))] @
             (if ?B \<noteq> 0 then [Freed m, Adjusted (- int (unat ?B))] else [])"
    using r(4) by (simp add: d(3) a(3) i)
  show "objects (snd (AllocDispose s1 obj)) =
           (objects s)(obj := (objects s obj)\<lparr>external := Some
              (if ?B \<noteq> 0
               then \<lparr>ea_data = 0, ea_type = kExternalUnsignedByteArray, ea_length = 0\<rparr>
               else \<lparr>ea_data = 0, ea_type = ?t, ea_length = 0\<rparr>)\<rparr>)"
    using r(4) by (auto simp add: d(2) a(1))
  show "weak (snd (AllocDispose s1 obj)) = weak s @ [(obj, WeakData ?d)]"
    by (simp add: d(5) a(4))
  show "cb_infos (snd (AllocDispose s1 obj)) = cb_infos s"
    by (simp add: d(6) a(5))
  show "using_smalloc_alloc_cb (snd (AllocDispose s1 obj)) = using_smalloc_alloc_cb s"
    by (simp add: d(7) a(6))
qed

section \<open>Allocation with a callback, then disposal\<close>

lemma Alloc_length_cb_Returned:
  fixes s :: "'w::len word state"
  assumes "Alloc_length_cb kMaxLength s obj len fn hint' t new_data new_info = (Returned, s1)"
  shows "\<not> HasExternalData s obj"
    and "(ExternalArraySize t :: 'w word) \<noteq> 0"
    and "len \<le> ucast kMaxLength"
    and "new_data \<noteq> None" and "new_info \<noteq> None"
    and "objects s1 = (objects s)(obj :=
           \<lparr>external = Some \<lparr>ea_data = the new_data, ea_type = t,
                               ea_length = len * ExternalArraySize t div ExternalArraySize t\<rparr>,
            hidden_smalloc_p = new_info\<rparr>)"
    and "external_memory s1 =
           external_memory s + to_int64 (len * ExternalArraySize t + sizeof_CallbackInfo)"
    and "trace s1 =
           trace s @ [Adjusted (to_int64 (len * ExternalArraySize t + sizeof_CallbackInfo))]"
    and "weak s1 = weak s @ [(obj, WeakInfo (the new_info))]"
    and "cb_infos s1 = (cb_infos s)(the new_info :=
           Some \<lparr>hint = hint', cb = fn, p_obj = obj\<rparr>)"
    and "using_smalloc_alloc_cb s1"
  using assms
  by (auto simp add: Alloc_length_cb_def Alloc_data_cb_def api_defs Let_def word_greater_zero_iff
      split: if_splits option.splits)

lemma TargetFreeCallback_Returned:
  fixes s :: "'w::len word state"
  assumes info: "cb_infos s cb_info = Some info"
    and ext: "external (objects s (p_obj info)) =
                Some \<lparr>ea_data = d, ea_type = t, ea_length = cnt\<rparr>"
    and size: "(ExternalArraySize t :: 'w word) \<noteq> 0"
    and strict: "1 < (ExternalArraySize t :: 'w word) \<Longrightarrow> cnt < cnt * ExternalArraySize t"
  shows "TargetFreeCallback s cb_info =
           (Returned,
            s\<lparr>external_memory := external_memory s +
                  neg_int64 (cnt * ExternalArraySize t + sizeof_CallbackInfo),
              weak := filter (\<lambda>r. snd r \<noteq> WeakInfo cb_info) (weak s),
              cb_infos := (cb_infos s)(cb_info := None),
              trace := trace s @
                [Adjusted (neg_int64 (cnt * ExternalArraySize t + sizeof_CallbackInfo)),
                 Invoked (cb info) d (hint info), Deleted cb_info]\<rparr>)"
proof (cases "1 < (ExternalArraySize t :: 'w word)")
  case True
  then show ?thesis
    using assms by (simp add: TargetFreeCallback_def api_defs Let_def word_greater_zero_iff)
next
  case False
  then have "(ExternalArraySize t :: 'w word) = 1"
    using size by (cases t) simp_all
  then show ?thesis
    using assms by (simp add: TargetFreeCallback_def api_defs Let_def)
qed


lemma callback_bytes_small:
  fixes len :: "'w::len word"
  assumes w: "32 \<le> LENGTH('w)" "LENGTH('w) \<le> 64"
    and len: "len \<le> ucast (kMaxLength :: uint32)"
  shows "unat (len * ExternalArraySize t + sizeof_CallbackInfo) < 2 ^ 63"
proof -
  let ?sz = "ExternalArraySize t :: 'w word"
  have "unat (len * ?sz) \<le> unat len * unat ?sz"
    by (simp add: unat_word_ariths)
  also have "\<dots> \<le> 2 ^ 32 * 8"
    using below_kMaxLength_small [OF w(1) len] unat_ExternalArraySize [OF w(1), of t]
    by (intro mult_mono) auto
  finally have bytes: "unat (len * ?sz) \<le> 2 ^ 32 * 8" .
  have "unat (of_nat n :: 'w word) \<le> n" for n
    by (simp only: unat_of_nat mod_less_eq_dividend)
  then have "unat (sizeof_CallbackInfo :: 'w word) \<le> 3 * (LENGTH('w) div 8)"
    unfolding sizeof_CallbackInfo_def .
  also have "\<dots> \<le> 24"
    using w(2) by simp
  finally have info: "unat (sizeof_CallbackInfo :: 'w word) \<le> 24" .
  have "unat (len * ?sz + sizeof_CallbackInfo) \<le>
          unat (len * ?sz) + unat (sizeof_CallbackInfo :: 'w word)"
    by (simp add: unat_word_ariths)
  then show ?thesis
    using bytes info by simp
qed


lemma count_below_bytes:
  fixes x :: "'w::len word"
  assumes w: "32 \<le> LENGTH('w)" and wide: "1 < (ExternalArraySize t :: 'w word)"
    and nz: "x * ExternalArraySize t \<noteq> 0"
  shows "x * ExternalArraySize t div ExternalArraySize t < x * ExternalArraySize t"
proof -
  let ?sz = "ExternalArraySize t :: 'w word"
  have "1 < unat ?sz"
    using wide by (simp add: word_less_nat_alt)
  moreover have "0 < unat (x * ?sz)"
    using nz by (simp add: unat_gt_0)
  ultimately have "unat (x * ?sz) div unat ?sz < unat (x * ?sz)"
    by (rule_tac div_less_dividend)
  then show ?thesis
    by (simp add: word_less_nat_alt unat_div)
qed

lemma Alloc_length_cb_then_AllocDispose:
  fixes s :: "'w::len word state"
  assumes w: "32 \<le> LENGTH('w)" "LENGTH('w) \<le> 64"
    and alloc: "Alloc_length_cb kMaxLength s obj len fn hint' t new_data new_info =
                  (Returned, s1)"
    and disposable: "(ExternalArraySize t :: 'w word) = 1 \<or> len * ExternalArraySize t \<noteq> 0"
  shows "AllocDispose s1 obj =
           (Returned,
            s1\<lparr>external_memory := external_memory s,
               weak := filter (\<lambda>r. snd r \<noteq> WeakInfo (the new_info)) (weak s),
               cb_infos := (cb_infos s)(the new_info := None),
               trace := trace s @
                 [Adjusted (int (unat (len * ExternalArraySize t + sizeof_CallbackInfo))),
                  Adjusted (- int (unat (len * ExternalArraySize t + sizeof_CallbackInfo))),
                  Invoked fn (the new_data) hint', Deleted (the new_info)]\<rparr>)"
proof -
  let ?sz = "ExternalArraySize t :: 'w word"
  let ?B = "len * ?sz"
  let ?info = "\<lparr>hint = hint', cb = fn, p_obj = obj\<rparr>"
  note r = Alloc_length_cb_Returned [OF alloc]
  obtain cb_info where ni: "new_info = Some cb_info"
    using r(5) by auto
  have mult: "?B div ?sz * ?sz = ?B"
    by (rule bytes_div_size_mult [OF w(1) r(2)])
  note i = int64_of_small [OF callback_bytes_small [OF w r(3), of t]]
  have info: "cb_infos s1 cb_info = Some ?info"
    by (simp add: r(10) ni)
  have ext: "external (objects s1 (p_obj ?info)) =
               Some \<lparr>ea_data = the new_data, ea_type = t, ea_length = ?B div ?sz\<rparr>"
    by (simp add: r(6))
  have strict: "1 < ?sz \<Longrightarrow> ?B div ?sz < ?B div ?sz * ?sz"
    unfolding mult using disposable count_below_bytes [OF w(1), of t len] by auto
  have branch: "AllocDispose s1 obj = TargetFreeCallback s1 cb_info"
    using r(11) by (simp add: AllocDispose_def r(6) ni)
  note tf = TargetFreeCallback_Returned [OF info ext r(2) strict, unfolded mult]
  show ?thesis
    by (simp add: branch tf r(7) r(8) r(9) r(10) i ni)
qed


lemma Alloc_args_adjusts:
  fixes s :: "'w::len word state"
  assumes w: "32 \<le> LENGTH('w)"
    and alloc: "Alloc_args kMaxLength s obj arg1 arg2 m = (Returned, s1)"
  shows "trace s1 = trace s @ [Adjusted (int (unat (requested_bytes arg1 arg2 :: 'w word)))]"
    and "external_memory s1 =
           external_memory s + int (unat (requested_bytes arg1 arg2 :: 'w word))"
proof -
  note r = Alloc_args_Returned [OF alloc]
  note a = Alloc_data_Returned [OF r(5)]
  have small: "unat (requested_bytes arg1 arg2 :: 'w word) < 2 ^ 63"
    using below_kMaxLength_small [OF w r(3)] by simp
  note i = int64_of_small [OF small]
  show "trace s1 = trace s @ [Adjusted (int (unat (requested_bytes arg1 arg2 :: 'w word)))]"
    by (simp add: a(3) i)
  show "external_memory s1 =
           external_memory s + int (unat (requested_bytes arg1 arg2 :: 'w word))"
    by (simp add: a(2) i)
qed

lemma Alloc_length_cb_adjusts:
  fixes s :: "'w::len word state"
  assumes w: "32 \<le> LENGTH('w)" "LENGTH('w) \<le> 64"
    and alloc: "Alloc_length_cb kMaxLength s obj len fn hint' t new_data new_info =
                  (Returned, s1)"
  shows "trace s1 =
           trace s @ [Adjusted (int (unat (len * ExternalArraySize t + sizeof_CallbackInfo)))]"
    and "external_memory s1 =
           external_memory s + int (unat (len * ExternalArraySize t + sizeof_CallbackInfo))"
proof -
  note r = Alloc_length_cb_Returned [OF alloc]
  note i = int64_of_small [OF callback_bytes_small [OF w r(3), of t]]
  show "trace s1 =
           trace s @ [Adjusted (int (unat (len * ExternalArraySize t + sizeof_CallbackInfo)))]"
    by (simp add: r(8) i)
  show "external_memory s1 =
           external_memory s + int (unat (len * ExternalArraySize t + sizeof_CallbackInfo))"
    by (simp add: r(7) i)
qed

section \<open>The accounting of allocate and dispose pairs\<close>







text \<open>
  Once an allocation with a callback has set \<open>using_smalloc_alloc_cb\<close>, the disposal of
  a default allocation goes through the empty handle at line 316.
\<close>

lemma AllocDispose_default_after_callback_allocation:
  "fst (Alloc_args 0x3fffffff allocated_with_callback 2 10 None 0x4000) = Returned \<and>
   fst (AllocDispose (snd (Alloc_args 0x3fffffff allocated_with_callback 2 10 None 0x4000)) 2) =
     EmptyHandle"
  by (simp add: dispose_defs alloc_defs alloc_cb_defs api_defs example_defs Let_def)

section \<open>Disposal, then the weak callback\<close>






lemma allocated_ints_Returned:
  "Alloc_args 0x3fffffff empty_state 1 10 (Some kExternalIntArray) 0x1000 =
     (Returned, allocated_ints)"
  by (simp add: alloc_defs api_defs example_defs Let_def)

lemma allocated_with_callback_Returned:
  "Alloc_length_cb 0x3fffffff empty_state 1 16 0x7000 0x8000 kExternalShortArray
     (Some 0x2000) (Some 0x3000) = (Returned, allocated_with_callback)"
  by (simp add: alloc_cb_defs api_defs example_defs Let_def)



section \<open>What disposal does\<close>

lemma AllocDispose_detached:
  fixes s :: "'w::len word state"
  assumes "external (objects s obj) =
             Some \<lparr>ea_data = 0, ea_type = kExternalUnsignedByteArray, ea_length = 0\<rparr>"
    and "\<not> using_smalloc_alloc_cb s"
  shows "AllocDispose s obj = (Returned, s)"
  using assms by (simp add: AllocDispose_def api_defs Let_def)

lemma AllocDispose_unattached:
  fixes s :: "'w::len word state"
  assumes "\<not> using_smalloc_alloc_cb s" and "\<not> HasExternalData s obj"
  shows "AllocDispose s obj = (AssertionFailed ''array_size > 0'', s)"
  using assms by (simp add: AllocDispose_def api_defs Let_def)

lemma AllocDispose_no_exception:
  fixes s :: "'w::len word state"
  shows "\<not> is_exception (fst (AllocDispose s obj))"
  by (simp add: AllocDispose_def TargetFreeCallback_def Let_def split: option.splits)

text \<open>
  C8, as the code has it. In no state does \<open>AllocDispose\<close> end in an exception for
  the caller. With \<open>size_t\<close> of 32 to 64 bits:

  in a state where no allocation with a callback has been made
  (\<open>using_smalloc_alloc_cb\<close> is not set), \<open>dispose\<close> of an object without external
  array data ends in the failed assertion \<open>array_size > 0\<close>, in the state it was
  given;

  in such a state, after \<open>alloc(obj, n[, type])\<close> of a non-zero byte length has
  returned, \<open>dispose\<close> returns, with the object's external array data set to the null
  pointer, unsigned bytes and length 0 (so that \<open>HasExternalData\<close> still holds of the
  object), \<open>free\<close> called once on the block and the external memory adjusted once by
  minus the byte length; a second \<open>dispose\<close> of the object returns as well and changes
  nothing;

  after \<open>Alloc(env, obj, length, fn, hint, type)\<close> has returned with single-byte
  elements or a non-zero byte length, \<open>dispose\<close> returns, with the external memory
  adjusted once by minus the byte length plus \<open>sizeof(CallbackInfo)\<close>, the callback
  called once with the data and the hint, the weak registration of the \<open>CallbackInfo\<close>
  gone and the \<open>CallbackInfo\<close> deleted.
\<close>

theorem AllocDispose_releases:
  fixes s :: "'w::len word state"
  assumes w: "32 \<le> LENGTH('w)" "LENGTH('w) \<le> 64"
  shows
    "\<not> is_exception (fst (AllocDispose s0 obj0)) \<and>
     (\<not> using_smalloc_alloc_cb s \<and> \<not> HasExternalData s obj \<longrightarrow>
        AllocDispose s obj = (AssertionFailed ''array_size > 0'', s)) \<and>
     (\<not> using_smalloc_alloc_cb s \<and>
      Alloc_args kMaxLength s obj arg1 arg2 m = (Returned, s1) \<and>
      (requested_bytes arg1 arg2 :: 'w word) \<noteq> 0 \<longrightarrow>
        fst (AllocDispose s1 obj) = Returned \<and>
        external (objects (snd (AllocDispose s1 obj)) obj) =
          Some \<lparr>ea_data = 0, ea_type = kExternalUnsignedByteArray, ea_length = 0\<rparr> \<and>
        HasExternalData (snd (AllocDispose s1 obj)) obj \<and>
        trace (snd (AllocDispose s1 obj)) =
          trace s1 @ [Freed m, Adjusted (- int (unat (requested_bytes arg1 arg2 :: 'w word)))] \<and>
        external_memory (snd (AllocDispose s1 obj)) =
          external_memory s1 - int (unat (requested_bytes arg1 arg2 :: 'w word)) \<and>
        AllocDispose (snd (AllocDispose s1 obj)) obj = (Returned, snd (AllocDispose s1 obj))) \<and>
     (Alloc_length_cb kMaxLength s obj len fn hint' t (Some data) (Some cb_info) =
        (Returned, s1') \<and>
      ((ExternalArraySize t :: 'w word) = 1 \<or> len * ExternalArraySize t \<noteq> 0) \<longrightarrow>
        fst (AllocDispose s1' obj) = Returned \<and>
        trace (snd (AllocDispose s1' obj)) =
          trace s1' @
            [Adjusted (- int (unat (len * ExternalArraySize t + sizeof_CallbackInfo))),
             Invoked fn data hint', Deleted cb_info] \<and>
        external_memory (snd (AllocDispose s1' obj)) =
          external_memory s1' - int (unat (len * ExternalArraySize t + sizeof_CallbackInfo)) \<and>
        (obj, WeakInfo cb_info) \<notin> set (weak (snd (AllocDispose s1' obj))) \<and>
        cb_infos (snd (AllocDispose s1' obj)) cb_info = None)"
proof (intro conjI impI; (elim conjE)?)
  show "\<not> is_exception (fst (AllocDispose s0 obj0))"
    by (rule AllocDispose_no_exception)
next
  assume "\<not> using_smalloc_alloc_cb s" and "\<not> HasExternalData s obj"
  then show "AllocDispose s obj = (AssertionFailed ''array_size > 0'', s)"
    by (rule AllocDispose_unattached)
next
  assume unused: "\<not> using_smalloc_alloc_cb s"
    and alloc: "Alloc_args kMaxLength s obj arg1 arg2 m = (Returned, s1)"
    and bytes: "(requested_bytes arg1 arg2 :: 'w word) \<noteq> 0"
  note p = Alloc_args_then_AllocDispose [OF w(1) alloc unused]
  note a = Alloc_args_adjusts [OF w(1) alloc]
  show "fst (AllocDispose s1 obj) = Returned"
    by (rule p(1))
  show ext: "external (objects (snd (AllocDispose s1 obj)) obj) =
          Some \<lparr>ea_data = 0, ea_type = kExternalUnsignedByteArray, ea_length = 0\<rparr>"
    using bytes by (simp add: p(4))
  then show "HasExternalData (snd (AllocDispose s1 obj)) obj"
    by (simp add: api_defs)
  show "trace (snd (AllocDispose s1 obj)) =
          trace s1 @ [Freed m, Adjusted (- int (unat (requested_bytes arg1 arg2 :: 'w word)))]"
    using bytes by (simp add: p(3) a(1))
  show "external_memory (snd (AllocDispose s1 obj)) =
          external_memory s1 - int (unat (requested_bytes arg1 arg2 :: 'w word))"
    by (simp add: p(2) a(2))
  have "\<not> using_smalloc_alloc_cb (snd (AllocDispose s1 obj))"
    using unused by (simp add: p(7))
  then show "AllocDispose (snd (AllocDispose s1 obj)) obj = (Returned, snd (AllocDispose s1 obj))"
    by (rule AllocDispose_detached [OF ext])
next
  assume alloc: "Alloc_length_cb kMaxLength s obj len fn hint' t (Some data) (Some cb_info) =
        (Returned, s1')"
    and disposable: "(ExternalArraySize t :: 'w word) = 1 \<or> len * ExternalArraySize t \<noteq> 0"
  note p = Alloc_length_cb_then_AllocDispose [OF w alloc disposable]
  note a = Alloc_length_cb_adjusts [OF w alloc]
  show "fst (AllocDispose s1' obj) = Returned"
    by (simp add: p)
  show "trace (snd (AllocDispose s1' obj)) =
          trace s1' @
            [Adjusted (- int (unat (len * ExternalArraySize t + sizeof_CallbackInfo))),
             Invoked fn data hint', Deleted cb_info]"
    by (simp add: p a(1))
  show "external_memory (snd (AllocDispose s1' obj)) =
          external_memory s1' - int (unat (len * ExternalArraySize t + sizeof_CallbackInfo))"
    by (simp add: p a(2))
  show "(obj, WeakInfo cb_info) \<notin> set (weak (snd (AllocDispose s1' obj)))"
    by (simp add: p)
  show "cb_infos (snd (AllocDispose s1' obj)) cb_info = None"
    by (simp add: p)
qed

theorem AllocDispose_releases_witness:
  "\<not> using_smalloc_alloc_cb (empty_state :: 64 word state) \<and>
   \<not> HasExternalData (empty_state :: 64 word state) 1 \<and>
   AllocDispose (empty_state :: 64 word state) 1 =
     (AssertionFailed ''array_size > 0'', empty_state) \<and>
   Alloc_args 0x3fffffff empty_state 1 10 (Some kExternalIntArray) 0x1000 =
     (Returned, allocated_ints) \<and>
   fst (AllocDispose allocated_ints 1) = Returned \<and>
   external (objects (snd (AllocDispose allocated_ints 1)) 1) =
     Some \<lparr>ea_data = 0, ea_type = kExternalUnsignedByteArray, ea_length = 0\<rparr> \<and>
   HasExternalData (snd (AllocDispose allocated_ints 1)) 1 \<and>
   external_memory (snd (AllocDispose allocated_ints 1)) = 0 \<and>
   Alloc_length_cb 0x3fffffff empty_state 1 16 0x7000 0x8000 kExternalShortArray
     (Some 0x2000) (Some 0x3000) = (Returned, allocated_with_callback) \<and>
   fst (AllocDispose allocated_with_callback 1) = Returned \<and>
   external_memory (snd (AllocDispose allocated_with_callback 1)) = 0 \<and>
   cb_infos (snd (AllocDispose allocated_with_callback 1)) 0x3000 = None"
proof -
  have w: "32 \<le> LENGTH(64)" "LENGTH(64) \<le> 64"
    by simp_all
  have unused: "\<not> using_smalloc_alloc_cb (empty_state :: 64 word state)"
    and unattached: "\<not> HasExternalData (empty_state :: 64 word state) 1"
    by (simp_all add: empty_state_def api_defs)
  have bytes: "(requested_bytes 10 (Some kExternalIntArray) :: 64 word) = 40"
    and bytes_cb: "(sizeof_CallbackInfo :: 64 word) = 24"
    by (simp_all add: requested_bytes_def sizeof_CallbackInfo_def)
  have m1: "external_memory allocated_ints = 40"
    and m2: "external_memory allocated_with_callback = 56"
    by (simp_all add: alloc_defs alloc_cb_defs api_defs example_defs Let_def)
  show ?thesis
    using AllocDispose_releases
            [OF w,
             of "empty_state" 1 "empty_state" 1 "0x3fffffff" 10 "Some kExternalIntArray" "0x1000"
                allocated_ints
                16 "0x7000" "0x8000" kExternalShortArray "0x2000" "0x3000"
                allocated_with_callback]
      unused unattached allocated_ints_Returned allocated_with_callback_Returned
    by (auto simp add: bytes bytes_cb m1 m2)
qed

text \<open>
  C8 as stated has \<open>dispose\<close> fail with an error on a buffer that was already
  released, and has a buffer query report no attached buffer after a \<open>dispose\<close>. The
  second \<open>dispose\<close> of the ten integers returns and leaves the state as it is, and
  \<open>HasExternalData\<close> holds of the object after the first.
\<close>

theorem second_AllocDispose_returns:
  "AllocDispose (snd (AllocDispose allocated_ints 1)) 1 =
     (Returned, snd (AllocDispose allocated_ints 1)) \<and>
   \<not> is_exception (fst (AllocDispose (snd (AllocDispose allocated_ints 1)) 1)) \<and>
   HasExternalData (snd (AllocDispose allocated_ints 1)) 1"
  by (simp add: dispose_defs alloc_defs api_defs example_defs Let_def)

text \<open>
  On the callback path \<open>TargetFreeCallback\<close> neither resets the object's external
  array data nor removes the hidden value: the object keeps the released pointer, and a
  second \<open>dispose\<close> reads the deleted \<open>CallbackInfo\<close>.
\<close>

lemma AllocDispose_callback_stays_attached:
  "HasExternalData (snd (AllocDispose allocated_with_callback 1)) 1 \<and>
   GetIndexedPropertiesExternalArrayData
     (objects (snd (AllocDispose allocated_with_callback 1)) 1) = 0x2000 \<and>
   fst (AllocDispose (snd (AllocDispose allocated_with_callback 1)) 1) = DanglingCallbackInfo"
  by (simp add: dispose_defs alloc_cb_defs api_defs example_defs Let_def)

end
